theory Spec2Isabelle
  imports Complex_Main
begin

section \<open>False-positive analysis of security findings\<close>

text \<open>
  A shallow embedding of \<^verbatim>\<open>scripts/deployment/lambda/false_positive_analysis.py\<close>.
  Each Python method becomes a HOL function of the same name. The conventions:
  \<^item> a Python \<^verbatim>\<open>str\<close> is a \<open>string\<close>; the inputs are taken to be ASCII, so that
    \<^verbatim>\<open>str.lower\<close> only touches the letters A to Z;
  \<^item> a Python \<^verbatim>\<open>float\<close> score is a \<open>real\<close>: the arithmetic is exact, the rounding of
    IEEE doubles is not modelled;
  \<^item> a key of a dict that may be absent is an \<open>option\<close> field, and \<^verbatim>\<open>d.get(k, default)\<close>
    is a \<open>case\<close> on it; a dict whose order is observed (\<^verbatim>\<open>tags.values()\<close>) is an
    association list;
  \<^item> an exception is a value \<open>Inl e\<close> of a sum type;
  \<^item> a coroutine (\<^verbatim>\<open>async def\<close>) is modelled by the value it yields when awaited;
  \<^item> logging, the metrics sink and the clock (\<^verbatim>\<open>processing_time_ms\<close>,
    \<^verbatim>\<open>timestamp\<close>) are left out.
\<close>

subsection \<open>Python string operations\<close>

definition lower_char :: "char \<Rightarrow> char" where
  "lower_char c =
     (case map_of (zip ''ABCDEFGHIJKLMNOPQRSTUVWXYZ'' ''abcdefghijklmnopqrstuvwxyz'') c of
        None \<Rightarrow> c
      | Some d \<Rightarrow> d)"

definition lower :: "string \<Rightarrow> string" where
  "lower s = map lower_char s"

fun startswith :: "string \<Rightarrow> string \<Rightarrow> bool" where
  "startswith text [] = True"
| "startswith [] (p # ps) = False"
| "startswith (c # cs) (p # ps) = (c = p \<and> startswith cs ps)"

text \<open>\<^verbatim>\<open>pattern in text\<close> on strings: \<open>pattern\<close> occurs as a contiguous substring.\<close>

fun py_in :: "string \<Rightarrow> string \<Rightarrow> bool" where
  "py_in pattern [] = (pattern = [])"
| "py_in pattern (c # cs) = (startswith (c # cs) pattern \<or> py_in pattern cs)"

text \<open>\<^verbatim>\<open>sep.join(parts)\<close>\<close>

fun join :: "string \<Rightarrow> string list \<Rightarrow> string" where
  "join sep [] = []"
| "join sep [p] = p"
| "join sep (p # q # ps) = p @ sep @ join sep (q # ps)"

text \<open>
  \<^verbatim>\<open>s.split(sep)\<close> for a one-character separator; the result is never empty
  (\<^verbatim>\<open>''.split('/') == ['']\<close>).
\<close>

fun split :: "char \<Rightarrow> string \<Rightarrow> string list" where
  "split sep [] = [[]]"
| "split sep (c # cs) =
     (if c = sep then [] # split sep cs
      else (case split sep cs of
              [] \<Rightarrow> [[c]]
            | p # ps \<Rightarrow> (c # p) # ps))"

text \<open>\<^verbatim>\<open>s.replace(old, '')\<close> for a one-character \<open>old\<close>.\<close>

definition remove_char :: "char \<Rightarrow> string \<Rightarrow> string" where
  "remove_char old s = filter (\<lambda>c. c \<noteq> old) s"

subsection \<open>Findings and analysis options\<close>

text \<open>
  The keys of the finding dict that the analyzers read. \<open>Resources\<close> absent is
  \<open>None\<close> (the code then defaults to \<^verbatim>\<open>[{}]\<close>, one resource without keys), which differs
  from \<open>Some []\<close>. \<open>Severity_Label\<close> is \<^verbatim>\<open>finding['Severity']['Label']\<close>.
\<close>

record resource =
  resource_Id :: "string option"
  Tags :: "(string \<times> string) list option"

record workflow_finding =
  WorkflowState :: "string option"

record finding =
  Id :: "string option"
  GeneratorId :: "string option"
  AwsAccountId :: "string option"
  Severity_Label :: "string option"
  Resources :: "resource list option"

record options =
  include_ml_classification :: "bool option"
  include_pattern_analysis :: "bool option"
  include_business_context :: "bool option"
  include_temporal_analysis :: "bool option"

text \<open>\<^verbatim>\<open>options.get(key, True)\<close>\<close>

definition get_option :: "bool option \<Rightarrow> bool" where
  "get_option v = (case v of None \<Rightarrow> True | Some b \<Rightarrow> b)"

text \<open>\<^verbatim>\<open>finding.get('Resources', [{}])\<close>\<close>

definition get_Resources :: "finding \<Rightarrow> resource list" where
  "get_Resources f =
     (case Resources f of
        None \<Rightarrow> [\<lparr>resource_Id = None, Tags = None\<rparr>]
      | Some rs \<Rightarrow> rs)"

text \<open>\<^verbatim>\<open>resource.get('Id', '')\<close> and \<^verbatim>\<open>resource.get('Tags', {})\<close>\<close>

definition get_Id :: "resource \<Rightarrow> string" where
  "get_Id r = (case resource_Id r of None \<Rightarrow> [] | Some s \<Rightarrow> s)"

definition get_Tags :: "resource \<Rightarrow> (string \<times> string) list" where
  "get_Tags r = (case Tags r of None \<Rightarrow> [] | Some t \<Rightarrow> t)"

text \<open>\<^verbatim>\<open>finding.get('Severity', {}).get('Label', 'MEDIUM')\<close>\<close>

definition get_Severity_Label :: "finding \<Rightarrow> string" where
  "get_Severity_Label f = (case Severity_Label f of None \<Rightarrow> ''MEDIUM'' | Some s \<Rightarrow> s)"

subsection \<open>Result records\<close>

record EnvironmentContext =
  environment :: string
  risk_level :: string
  is_production :: bool
  requires_immediate_action :: bool

record BusinessContext =
  is_critical_resource :: bool
  has_business_exception :: bool
  business_impact :: string
  requires_business_review :: bool

record FalsePositiveClassification =
  is_false_positive :: bool
  confidence :: real
  reasoning :: string

record PatternAnalysis =
  similar_findings_count :: nat
  false_positive_rate :: real
  pattern_confidence :: real
  pattern_reasoning :: string

record TemporalAnalysis =
  is_temporary :: bool
  recurrence_pattern :: string
  in_maintenance_window :: bool
  temporal_risk_level :: string

text \<open>
  The dict that \<^verbatim>\<open>combine_analysis_results\<close> returns has the three keys of a
  \<open>FalsePositiveClassification\<close> and \<^verbatim>\<open>recommended_action\<close>.
\<close>

record classification = FalsePositiveClassification +
  recommended_action :: string

subsection \<open>EnvironmentAnalyzer\<close>

text \<open>The dict \<^verbatim>\<open>self.environment_patterns\<close>, in insertion order.\<close>

definition environment_patterns :: "(string \<times> string list) list" where
  "environment_patterns =
     [(''test'', [''test'', ''dev'', ''staging'', ''qa'', ''sandbox'', ''demo'']),
      (''production'', [''prod'', ''production'', ''live'', ''main'']),
      (''development'', [''dev'', ''development'', ''feature'', ''branch''])]"

text \<open>
  The loop of \<^verbatim>\<open>detect_environment\<close> over the items of the dict: the first entry one
  of whose patterns occurs in the text is returned, \<^verbatim>\<open>'unknown'\<close> after the loop.
\<close>

fun first_matching_env :: "(string \<times> string list) list \<Rightarrow> string \<Rightarrow> string" where
  "first_matching_env [] text = ''unknown''"
| "first_matching_env ((env, patterns) # rest) text =
     (if list_ex (\<lambda>pattern. py_in pattern text) patterns then env
      else first_matching_env rest text)"

definition detect_environment :: "string \<Rightarrow> (string \<times> string) list \<Rightarrow> string" where
  "detect_environment resource_arn tags =
     (let text_to_analyze = lower (resource_arn @ '' '' @ join '' '' (map snd tags))
      in first_matching_env environment_patterns text_to_analyze)"

text \<open>\<^verbatim>\<open>risk_mapping.get(environment, 'MEDIUM')\<close>\<close>

definition assess_environment_risk :: "string \<Rightarrow> string" where
  "assess_environment_risk env =
     (case map_of [(''production'', ''HIGH''), (''staging'', ''MEDIUM''), (''test'', ''LOW''),
                   (''development'', ''LOW''), (''unknown'', ''MEDIUM'')] env of
        None \<Rightarrow> ''MEDIUM''
      | Some r \<Rightarrow> r)"

definition analyze_environment_context :: "finding \<Rightarrow> EnvironmentContext" where
  "analyze_environment_context f =
     (case get_Resources f of
        [] \<Rightarrow> \<lparr>environment = ''unknown'', risk_level = ''MEDIUM'',
               is_production = False, requires_immediate_action = False\<rparr>
      | resource # _ \<Rightarrow>
          (let resource_arn = get_Id resource;
               tags = get_Tags resource;
               env = detect_environment resource_arn tags;
               risk = assess_environment_risk env
           in \<lparr>environment = env, risk_level = risk,
               is_production = (env = ''production''),
               requires_immediate_action = (env = ''production'')\<rparr>))"

subsection \<open>BusinessContextAnalyzer\<close>

definition critical_resources :: "string list" where
  "critical_resources =
     [''arn:aws:iam::*:root'', ''arn:aws:s3:::production-data-*'',
      ''arn:aws:rds:*:*:db:production-*'']"

definition business_exceptions :: "string list" where
  "business_exceptions =
     [''IAM.1:development:test-account'', ''S3.1:staging:demo-bucket'',
      ''EC2.1:dev:test-instance'']"

definition matches_pattern :: "string \<Rightarrow> string \<Rightarrow> bool" where
  "matches_pattern resource_id pattern = py_in (remove_char CHR ''*'' pattern) resource_id"

definition is_critical_resource_check :: "string \<Rightarrow> bool" where
  "is_critical_resource_check resource_id =
     list_ex (\<lambda>pattern. matches_pattern resource_id pattern) critical_resources"

definition generate_finding_key :: "finding \<Rightarrow> string" where
  "generate_finding_key f =
     (let generator_id = (case GeneratorId f of None \<Rightarrow> [] | Some g \<Rightarrow> g);
          account_id = (case AwsAccountId f of None \<Rightarrow> [] | Some a \<Rightarrow> a);
          resources = get_Resources f;
          parts = split CHR ''/'' generator_id;
          service_control = (if length parts \<ge> 2 then last parts else generator_id);
          env = (case resources of
                   [] \<Rightarrow> ''unknown''
                 | r # _ \<Rightarrow> (case map_of (get_Tags r) ''Environment'' of
                               None \<Rightarrow> ''unknown''
                             | Some e \<Rightarrow> e))
      in service_control @ '':'' @ env @ '':'' @ account_id)"

definition has_business_exception_check :: "finding \<Rightarrow> bool" where
  "has_business_exception_check f = (generate_finding_key f \<in> set business_exceptions)"

definition assess_business_impact :: "finding \<Rightarrow> bool \<Rightarrow> bool \<Rightarrow> string" where
  "assess_business_impact f is_critical has_exception =
     (if is_critical then ''HIGH''
      else if has_exception then ''LOW''
      else if get_Severity_Label f \<in> set [''HIGH'', ''CRITICAL''] then ''MEDIUM''
      else ''LOW'')"

definition analyze_business_context :: "finding \<Rightarrow> BusinessContext" where
  "analyze_business_context f =
     (case get_Resources f of
        [] \<Rightarrow> \<lparr>is_critical_resource = False, has_business_exception = False,
               business_impact = ''UNKNOWN'', requires_business_review = False\<rparr>
      | r # _ \<Rightarrow>
          (let resource_id = get_Id r;
               is_critical = is_critical_resource_check resource_id;
               has_exception = has_business_exception_check f
           in \<lparr>is_critical_resource = is_critical, has_business_exception = has_exception,
               business_impact = assess_business_impact f is_critical has_exception,
               requires_business_review = (is_critical \<or> has_exception)\<rparr>))"

subsection \<open>FalsePositiveFeatureExtractor\<close>

text \<open>
  \<^verbatim>\<open>extract_severity_mismatch_score\<close> searches \<^verbatim>\<open>str(finding).lower()\<close>, the printed form
  of the whole dict, which depends on every key of the finding, also on those that no
  analyzer reads. The printing function is therefore a parameter \<open>py_str\<close> of the model,
  and every theorem below holds for each such function.
\<close>

definition extract_environment_score :: "finding \<Rightarrow> real" where
  "extract_environment_score f =
     (let context = analyze_environment_context f
      in if environment context \<in> set [''test'', ''development'', ''staging''] then 0.9
         else if environment context = ''production'' then 0.1
         else 0.5)"

definition extract_historical_pattern_score :: "finding \<Rightarrow> real" where
  "extract_historical_pattern_score f = 0.5"

definition extract_business_exception_score :: "finding \<Rightarrow> real" where
  "extract_business_exception_score f =
     (let context = analyze_business_context f
      in if has_business_exception context then 0.8
         else if is_critical_resource context then 0.2
         else 0.5)"

definition extract_temporal_pattern_score :: "finding \<Rightarrow> real" where
  "extract_temporal_pattern_score f = 0.5"

definition extract_severity_mismatch_score :: "(finding \<Rightarrow> string) \<Rightarrow> finding \<Rightarrow> real" where
  "extract_severity_mismatch_score py_str f =
     (let severity = get_Severity_Label f
      in if severity = ''CRITICAL'' \<and> py_in ''test'' (lower (py_str f)) then 0.8
         else if severity = ''LOW'' \<and> py_in ''production'' (lower (py_str f)) then 0.3
         else 0.5)"

definition extract_features :: "(finding \<Rightarrow> string) \<Rightarrow> finding \<Rightarrow> real list" where
  "extract_features py_str f =
     [extract_environment_score f,
      extract_historical_pattern_score f,
      extract_business_exception_score f,
      extract_temporal_pattern_score f,
      extract_severity_mismatch_score py_str f]"

subsection \<open>MLClassifier\<close>

datatype py_error = KeyError | IndexError

definition weights :: "real list" where
  "weights = [0.3, 0.25, 0.2, 0.15, 0.1]"

definition simple_classification :: "real list \<Rightarrow> real" where
  "simple_classification features =
     (let weighted_sum = sum_list (map (\<lambda>(f, w). f * w) (zip features weights))
      in min (max weighted_sum 0.0) 1.0)"

text \<open>
  \<^verbatim>\<open>generate_reasoning\<close> reads \<^verbatim>\<open>features[0]\<close> to \<^verbatim>\<open>features[3]\<close>; on a shorter list one
  of the reads raises \<^verbatim>\<open>IndexError\<close>.
\<close>

definition generate_reasoning :: "finding \<Rightarrow> real list \<Rightarrow> real \<Rightarrow> py_error + string" where
  "generate_reasoning f features probability =
     (if length features < 4 then Inl IndexError
      else
        (let reasoning_parts =
               (if features ! 0 > 0.8 then [''Finding is in non-production environment''] else [])
             @ (if features ! 1 > 0.7 then [''Similar findings were previously false positives'']
                else [])
             @ (if features ! 2 > 0.6 then [''Finding matches known business exception pattern'']
                else [])
             @ (if features ! 3 > 0.7 then [''Finding appears to be temporary''] else [])
         in Inr (if reasoning_parts \<noteq> [] then join ''; '' reasoning_parts
                 else ''No specific indicators'')))"

text \<open>The \<^verbatim>\<open>try\<close> block of \<^verbatim>\<open>classify_finding\<close> turns every exception into \<^verbatim>\<open>None\<close>.\<close>

definition classify_finding ::
  "(finding \<Rightarrow> string) \<Rightarrow> finding \<Rightarrow> FalsePositiveClassification option" where
  "classify_finding py_str f =
     (let features = extract_features py_str f;
          probability = simple_classification features
      in case generate_reasoning f features probability of
           Inl e \<Rightarrow> None
         | Inr r \<Rightarrow> Some \<lparr>is_false_positive = (probability > 0.7),
                         confidence = probability,
                         reasoning = r\<rparr>)"

subsection \<open>PatternRecognitionEngine\<close>

text \<open>
  The dict that \<^verbatim>\<open>analyze_outcomes\<close> returns: on an empty history it has the key
  \<^verbatim>\<open>false_positive_rate\<close> only.
\<close>

record outcome_analysis =
  oa_false_positive_rate :: "real option"
  oa_total_findings :: "nat option"
  oa_false_positive_count :: "nat option"

definition find_similar_findings :: "finding \<Rightarrow> workflow_finding list" where
  "find_similar_findings f = []"

definition analyze_outcomes :: "workflow_finding list \<Rightarrow> outcome_analysis" where
  "analyze_outcomes similar_findings =
     (if similar_findings = [] then
        \<lparr>oa_false_positive_rate = Some 0.5, oa_total_findings = None,
         oa_false_positive_count = None\<rparr>
      else
        (let false_positive_count =
               length (filter (\<lambda>f. WorkflowState f = Some ''SUPPRESSED'') similar_findings);
             total_count = length similar_findings
         in \<lparr>oa_false_positive_rate =
               Some (if total_count > 0 then real false_positive_count / real total_count
                     else 0.5),
             oa_total_findings = Some total_count,
             oa_false_positive_count = Some false_positive_count\<rparr>))"

text \<open>\<^verbatim>\<open>outcome_analysis.get('false_positive_rate', 0.5)\<close> and
  \<^verbatim>\<open>outcome_analysis.get('total_findings', 0)\<close>\<close>

definition get_false_positive_rate :: "outcome_analysis \<Rightarrow> real" where
  "get_false_positive_rate oa = (case oa_false_positive_rate oa of None \<Rightarrow> 0.5 | Some r \<Rightarrow> r)"

definition get_total_findings :: "outcome_analysis \<Rightarrow> nat" where
  "get_total_findings oa = (case oa_total_findings oa of None \<Rightarrow> 0 | Some n \<Rightarrow> n)"

definition calculate_pattern_probability :: "outcome_analysis \<Rightarrow> real" where
  "calculate_pattern_probability oa =
     (let false_positive_rate = get_false_positive_rate oa;
          total_findings = get_total_findings oa
      in if total_findings > 10 then false_positive_rate
         else if total_findings > 5 then false_positive_rate * 0.8
         else 0.5)"

text \<open>
  \<^verbatim>\<open>f"{percentage:.0f}"\<close>: the nearest integer, a tie going to the even neighbour, in
  decimal digits.
\<close>

fun str_nat :: "nat \<Rightarrow> string" where
  "str_nat n =
     (if n < 10 then [''0123456789'' ! n]
      else str_nat (n div 10) @ [''0123456789'' ! (n mod 10)])"

definition round_half_even :: "real \<Rightarrow> int" where
  "round_half_even x =
     (let n = \<lfloor>x\<rfloor>; d = x - of_int n
      in if d < 1 / 2 then n
         else if d > 1 / 2 then n + 1
         else if even n then n else n + 1)"

definition format_0f :: "real \<Rightarrow> string" where
  "format_0f x =
     (let r = round_half_even x
      in if x < 0 then CHR ''-'' # str_nat (nat (- r)) else str_nat (nat r))"

definition generate_pattern_reasoning :: "outcome_analysis \<Rightarrow> string" where
  "generate_pattern_reasoning oa =
     (let false_positive_rate = get_false_positive_rate oa;
          total_findings = get_total_findings oa
      in if total_findings = 0 then ''No similar historical findings found''
         else (let percentage = false_positive_rate * 100
               in format_0f percentage @ ''% of similar findings were false positives''))"

text \<open>
  The body of \<^verbatim>\<open>analyze_historical_patterns\<close> after the history lookup, as a function
  of the similar findings it got. Nothing in it raises on a history of this type, so the
  \<^verbatim>\<open>except\<close> branch of the method (and that of \<^verbatim>\<open>analyze_temporal_context\<close>) is never
  taken and has no counterpart here.
\<close>

definition analyze_similar_findings :: "workflow_finding list \<Rightarrow> PatternAnalysis" where
  "analyze_similar_findings similar_findings =
     (let oa = analyze_outcomes similar_findings;
          false_positive_probability = calculate_pattern_probability oa
      in \<lparr>similar_findings_count = length similar_findings,
          false_positive_rate = get_false_positive_rate oa,
          pattern_confidence = false_positive_probability,
          pattern_reasoning = generate_pattern_reasoning oa\<rparr>)"

definition analyze_historical_patterns :: "finding \<Rightarrow> PatternAnalysis" where
  "analyze_historical_patterns f = analyze_similar_findings (find_similar_findings f)"

subsection \<open>TemporalAnalyzer\<close>

definition is_temporary_finding :: "finding \<Rightarrow> bool" where
  "is_temporary_finding f = False"

definition analyze_recurrence_pattern :: "finding \<Rightarrow> string" where
  "analyze_recurrence_pattern f = ''NONE''"

definition is_in_maintenance_window :: "finding \<Rightarrow> bool" where
  "is_in_maintenance_window f = False"

definition calculate_temporal_risk :: "bool \<Rightarrow> string \<Rightarrow> bool \<Rightarrow> string" where
  "calculate_temporal_risk is_temp recurrence in_window =
     (if is_temp then ''LOW''
      else if in_window then ''MEDIUM''
      else if recurrence \<noteq> ''NONE'' then ''MEDIUM''
      else ''HIGH'')"

definition analyze_temporal_context :: "finding \<Rightarrow> TemporalAnalysis" where
  "analyze_temporal_context f =
     (let is_temp = is_temporary_finding f;
          recurrence = analyze_recurrence_pattern f;
          in_window = is_in_maintenance_window f
      in \<lparr>is_temporary = is_temp, recurrence_pattern = recurrence,
          in_maintenance_window = in_window,
          temporal_risk_level = calculate_temporal_risk is_temp recurrence in_window\<rparr>)"

subsection \<open>FalsePositiveAnalysisLambda\<close>

definition calculate_environment_score :: "EnvironmentContext \<Rightarrow> real" where
  "calculate_environment_score environment_analysis =
     (if environment environment_analysis \<in> set [''test'', ''development'', ''staging''] then 0.9
      else if environment environment_analysis = ''production'' then 0.1
      else 0.5)"

definition calculate_business_score :: "BusinessContext \<Rightarrow> real" where
  "calculate_business_score business_context =
     (if has_business_exception business_context then 0.8
      else if is_critical_resource business_context then 0.2
      else 0.5)"

definition calculate_temporal_score :: "TemporalAnalysis \<Rightarrow> real" where
  "calculate_temporal_score temporal_analysis =
     (if is_temporary temporal_analysis then 0.8
      else if in_maintenance_window temporal_analysis then 0.7
      else 0.5)"

text \<open>
  The list \<^verbatim>\<open>confidence_scores\<close> that \<^verbatim>\<open>combine_analysis_results\<close> builds: one score,
  in this order, for each analysis that is not \<^verbatim>\<open>None\<close> (an instance of a dataclass is
  always true in a condition).
\<close>

definition confidence_scores ::
  "EnvironmentContext option \<Rightarrow> FalsePositiveClassification option \<Rightarrow> PatternAnalysis option \<Rightarrow>
   BusinessContext option \<Rightarrow> TemporalAnalysis option \<Rightarrow> real list" where
  "confidence_scores environment_analysis ml_classification pattern_analysis
     business_context temporal_analysis =
     (case environment_analysis of None \<Rightarrow> [] | Some e \<Rightarrow> [calculate_environment_score e])
   @ (case ml_classification of None \<Rightarrow> [] | Some m \<Rightarrow> [confidence m])
   @ (case pattern_analysis of None \<Rightarrow> [] | Some p \<Rightarrow> [pattern_confidence p])
   @ (case business_context of None \<Rightarrow> [] | Some b \<Rightarrow> [calculate_business_score b])
   @ (case temporal_analysis of None \<Rightarrow> [] | Some t \<Rightarrow> [calculate_temporal_score t])"

text \<open>The list \<^verbatim>\<open>reasoning_parts\<close> of the same pass.\<close>

definition reasoning_parts ::
  "EnvironmentContext option \<Rightarrow> FalsePositiveClassification option \<Rightarrow> PatternAnalysis option \<Rightarrow>
   BusinessContext option \<Rightarrow> TemporalAnalysis option \<Rightarrow> string list" where
  "reasoning_parts environment_analysis ml_classification pattern_analysis
     business_context temporal_analysis =
     (case environment_analysis of
        None \<Rightarrow> []
      | Some e \<Rightarrow> if calculate_environment_score e > 0.8
                  then [''Finding is in non-production environment''] else [])
   @ (case ml_classification of
        None \<Rightarrow> []
      | Some m \<Rightarrow> if confidence m > 0.7 then [reasoning m] else [])
   @ (case pattern_analysis of
        None \<Rightarrow> []
      | Some p \<Rightarrow> if pattern_confidence p > 0.8 then [pattern_reasoning p] else [])
   @ (case business_context of
        None \<Rightarrow> []
      | Some b \<Rightarrow> if has_business_exception b
                  then [''Finding matches known business exception''] else [])
   @ (case temporal_analysis of
        None \<Rightarrow> []
      | Some t \<Rightarrow> if is_temporary t then [''Finding appears to be temporary''] else [])"

text \<open>The \<^verbatim>\<open>if\<close> chain of \<^verbatim>\<open>combine_analysis_results\<close> that picks the action.\<close>

definition action_for_confidence :: "real \<Rightarrow> string" where
  "action_for_confidence final_confidence =
     (if final_confidence > 0.9 then ''SUPPRESS''
      else if final_confidence > 0.7 then ''DOWNGRADE''
      else ''REVIEW'')"

definition combine_analysis_results ::
  "EnvironmentContext option \<Rightarrow> FalsePositiveClassification option \<Rightarrow> PatternAnalysis option \<Rightarrow>
   BusinessContext option \<Rightarrow> TemporalAnalysis option \<Rightarrow> classification" where
  "combine_analysis_results environment_analysis ml_classification pattern_analysis
     business_context temporal_analysis =
     (let scores = confidence_scores environment_analysis ml_classification pattern_analysis
                     business_context temporal_analysis;
          parts = reasoning_parts environment_analysis ml_classification pattern_analysis
                     business_context temporal_analysis;
          final_confidence =
            (if scores \<noteq> [] then sum_list scores / real (length scores) else 0.5)
      in \<lparr>is_false_positive = (final_confidence > 0.7),
          confidence = final_confidence,
          reasoning = (if parts \<noteq> [] then join ''; '' parts else ''No specific indicators''),
          recommended_action = action_for_confidence final_confidence\<rparr>)"

definition get_models_used :: "options \<Rightarrow> string list" where
  "get_models_used opts =
     [''environment_analyzer'']
   @ (if get_option (include_ml_classification opts) then [''ml_classifier''] else [])
   @ (if get_option (include_pattern_analysis opts) then [''pattern_recognizer''] else [])
   @ (if get_option (include_business_context opts) then [''business_analyzer''] else [])
   @ (if get_option (include_temporal_analysis opts) then [''temporal_analyzer''] else [])"

text \<open>
  The dict that \<^verbatim>\<open>analyze_finding\<close> returns. Each analysis is the result of
  \<^verbatim>\<open>to_dict()\<close> or \<^verbatim>\<open>None\<close>; for \<^verbatim>\<open>environment_analysis\<close> the code calls \<^verbatim>\<open>to_dict()\<close>
  without a test.
\<close>

record response =
  analysis_id :: string
  finding_id :: string
  classification :: classification
  environment_analysis :: "EnvironmentContext option"
  ml_classification :: "FalsePositiveClassification option"
  pattern_analysis :: "PatternAnalysis option"
  business_context :: "BusinessContext option"
  temporal_analysis :: "TemporalAnalysis option"
  models_used :: "string list"

text \<open>
  \<^verbatim>\<open>finding['Id']\<close> raises \<^verbatim>\<open>KeyError\<close> when the key is absent, before the \<^verbatim>\<open>try\<close> block;
  nothing inside the block raises on a finding of this type.
\<close>

definition analyze_finding ::
  "(finding \<Rightarrow> string) \<Rightarrow> finding \<Rightarrow> options \<Rightarrow> py_error + response" where
  "analyze_finding py_str f opts =
     (case Id f of
        None \<Rightarrow> Inl KeyError
      | Some fid \<Rightarrow>
          (let aid = ''fp-analysis-'' @ last (split CHR ''/'' fid);
               env = analyze_environment_context f;
               ml = (if get_option (include_ml_classification opts)
                     then classify_finding py_str f else None);
               pat = (if get_option (include_pattern_analysis opts)
                      then Some (analyze_historical_patterns f) else None);
               bus = (if get_option (include_business_context opts)
                      then Some (analyze_business_context f) else None);
               tmp = (if get_option (include_temporal_analysis opts)
                      then Some (analyze_temporal_context f) else None)
           in Inr \<lparr>analysis_id = aid,
                   finding_id = fid,
                   classification = combine_analysis_results (Some env) ml pat bus tmp,
                   environment_analysis = Some env,
                   ml_classification = ml,
                   pattern_analysis = pat,
                   business_context = bus,
                   temporal_analysis = tmp,
                   models_used = get_models_used opts\<rparr>))"

subsection \<open>Notions of the specification\<close>

text \<open>
  The arithmetic mean over the analyses that are present, written as the specification
  states it: the sum of their scores and their number.
\<close>

definition score_total ::
  "EnvironmentContext option \<Rightarrow> FalsePositiveClassification option \<Rightarrow> PatternAnalysis option \<Rightarrow>
   BusinessContext option \<Rightarrow> TemporalAnalysis option \<Rightarrow> real" where
  "score_total e m p b t =
     (case e of None \<Rightarrow> 0 | Some x \<Rightarrow> calculate_environment_score x)
   + (case m of None \<Rightarrow> 0 | Some x \<Rightarrow> confidence x)
   + (case p of None \<Rightarrow> 0 | Some x \<Rightarrow> pattern_confidence x)
   + (case b of None \<Rightarrow> 0 | Some x \<Rightarrow> calculate_business_score x)
   + (case t of None \<Rightarrow> 0 | Some x \<Rightarrow> calculate_temporal_score x)"

definition score_count ::
  "EnvironmentContext option \<Rightarrow> FalsePositiveClassification option \<Rightarrow> PatternAnalysis option \<Rightarrow>
   BusinessContext option \<Rightarrow> TemporalAnalysis option \<Rightarrow> nat" where
  "score_count e m p b t =
     (if e = None then 0 else 1) + (if m = None then 0 else 1) + (if p = None then 0 else 1)
   + (if b = None then 0 else 1) + (if t = None then 0 else 1)"

text \<open>
  How aggressively an action suppresses: \<^verbatim>\<open>REVIEW\<close> (a human decides), then
  \<^verbatim>\<open>DOWNGRADE\<close>, then \<^verbatim>\<open>SUPPRESS\<close>.
\<close>

definition aggressiveness :: "string \<Rightarrow> nat" where
  "aggressiveness action =
     (if action = ''SUPPRESS'' then 2 else if action = ''DOWNGRADE'' then 1 else 0)"

subsection \<open>Example inputs\<close>

text \<open>
  The findings that \<^verbatim>\<open>create_test_finding\<close> of
  \<^verbatim>\<open>scripts/testing/test-false-positive-analysis.py\<close> builds for its development and
  production scenarios (the keys that the analyzers read), a finding on a bucket tagged
  \<^verbatim>\<open>Staging\<close>, the options with every analysis enabled and with every analysis
  disabled, and a history of six findings.
\<close>

definition finding_development :: finding where
  "finding_development =
     \<lparr>Id = Some ''arn:aws:securityhub:us-west-2:123456789012:finding/test-1'',
      GeneratorId = Some ''aws-foundational-security-best-practices/v/1.0.0/IAM.1'',
      AwsAccountId = Some ''123456789012'',
      Severity_Label = Some ''MEDIUM'',
      Resources = Some [\<lparr>resource_Id = Some ''arn:aws:iam::123456789012:root'',
                         Tags = Some [(''Environment'', ''development''),
                                      (''Project'', ''test-project'')]\<rparr>]\<rparr>"

definition finding_production :: finding where
  "finding_production =
     \<lparr>Id = Some ''arn:aws:securityhub:us-west-2:123456789012:finding/test-2'',
      GeneratorId = Some ''aws-foundational-security-best-practices/v/1.0.0/IAM.1'',
      AwsAccountId = Some ''123456789012'',
      Severity_Label = Some ''HIGH'',
      Resources = Some [\<lparr>resource_Id = Some ''arn:aws:iam::123456789012:root'',
                         Tags = Some [(''Environment'', ''production''),
                                      (''Project'', ''test-project'')]\<rparr>]\<rparr>"

definition finding_staging :: finding where
  "finding_staging = \<lparr>Id = Some ''f-1'', GeneratorId = Some ''fsbp/v/1.0.0/IAM.1'',
     AwsAccountId = Some ''123456789012'', Severity_Label = Some ''MEDIUM'',
     Resources = Some [\<lparr>resource_Id = Some ''arn:aws:s3:::Logs'',
       Tags = Some [(''Environment'', ''Staging'')]\<rparr>]\<rparr>"

definition all_enabled :: options where
  "all_enabled = \<lparr>include_ml_classification = Some True, include_pattern_analysis = Some True,
     include_business_context = Some True, include_temporal_analysis = Some True\<rparr>"

definition all_disabled :: options where
  "all_disabled = \<lparr>include_ml_classification = Some False, include_pattern_analysis = Some False,
     include_business_context = Some False, include_temporal_analysis = Some False\<rparr>"

definition history_six :: "workflow_finding list" where
  "history_six =
     [\<lparr>WorkflowState = Some ''SUPPRESSED''\<rparr>, \<lparr>WorkflowState = Some ''NEW''\<rparr>,
      \<lparr>WorkflowState = Some ''SUPPRESSED''\<rparr>, \<lparr>WorkflowState = None\<rparr>,
      \<lparr>WorkflowState = Some ''SUPPRESSED''\<rparr>, \<lparr>WorkflowState = Some ''RESOLVED''\<rparr>]"

subsection \<open>Substrings\<close>

lemma startswith_iff: "startswith s p \<longleftrightarrow> (\<exists>b. s = p @ b)"
  by (induction s p rule: startswith.induct) auto

lemma py_in_iff: "py_in p s \<longleftrightarrow> (\<exists>a b. s = a @ p @ b)"
proof (induction s)
  case Nil
  then show ?case by auto
next
  case (Cons c cs)
  show ?case
  proof
    assume "py_in p (c # cs)"
    then consider "startswith (c # cs) p" | "py_in p cs" by auto
    then show "\<exists>a b. c # cs = a @ p @ b"
    proof cases
      case 1
      then obtain b where "c # cs = p @ b" by (auto simp: startswith_iff)
      then have "c # cs = [] @ p @ b" by simp
      then show ?thesis by blast
    next
      case 2
      then obtain a b where "cs = a @ p @ b" using Cons.IH by auto
      then have "c # cs = (c # a) @ p @ b" by simp
      then show ?thesis by blast
    qed
  next
    assume "\<exists>a b. c # cs = a @ p @ b"
    then obtain a b where ab: "c # cs = a @ p @ b" by auto
    show "py_in p (c # cs)"
    proof (cases a)
      case Nil
      then have "startswith (c # cs) p" using ab by (auto simp: startswith_iff)
      then show ?thesis by simp
    next
      case (Cons x xs)
      then have "cs = xs @ p @ b" using ab by simp
      then have "py_in p cs" using Cons.IH by blast
      then show ?thesis by simp
    qed
  qed
qed

lemma py_in_append_left: "py_in p s \<Longrightarrow> py_in p (s @ t)"
  unfolding py_in_iff by (metis append.assoc)

lemma py_in_append_right: "py_in p t \<Longrightarrow> py_in p (s @ t)"
  unfolding py_in_iff by (metis append.assoc)

lemma py_in_join: "v \<in> set vs \<Longrightarrow> py_in p v \<Longrightarrow> py_in p (join sep vs)"
proof (induction sep vs rule: join.induct)
  case (1 sep)
  then show ?case by simp
next
  case (2 sep q)
  then show ?case by simp
next
  case (3 sep q r rs)
  then show ?case
    by (auto intro: py_in_append_left py_in_append_right)
qed

lemma lower_append: "lower (s @ t) = lower s @ lower t"
  by (simp add: lower_def)

lemma lower_join: "lower (join sep vs) = join (lower sep) (map lower vs)"
  by (induction sep vs rule: join.induct) (simp_all add: lower_append, simp add: lower_def)

lemma py_in_development: "py_in ''development'' s \<Longrightarrow> py_in ''dev'' s"
proof -
  assume "py_in ''development'' s"
  then obtain a b where "s = a @ ''development'' @ b" by (auto simp: py_in_iff)
  then have "s = a @ ''dev'' @ (''elopment'' @ b)" by simp
  then show ?thesis unfolding py_in_iff by blast
qed

subsection \<open>The environment tiers\<close>

lemma first_matching_env_patterns:
  "first_matching_env environment_patterns text =
     (if list_ex (\<lambda>k. py_in k text) [''test'', ''dev'', ''staging'', ''qa'', ''sandbox'', ''demo'']
      then ''test''
      else if list_ex (\<lambda>k. py_in k text) [''prod'', ''production'', ''live'', ''main'']
      then ''production''
      else if list_ex (\<lambda>k. py_in k text) [''dev'', ''development'', ''feature'', ''branch'']
      then ''development''
      else ''unknown'')"
  by (simp add: environment_patterns_def)

lemma detect_environment_range:
  "detect_environment arn tags \<in> {''test'', ''production'', ''development'', ''unknown''}"
  unfolding detect_environment_def Let_def first_matching_env_patterns by simp

lemma text_contains:
  assumes "py_in k (lower arn) \<or> (\<exists>v \<in> set (map snd tags). py_in k (lower v))"
  shows "py_in k (lower (arn @ '' '' @ join '' '' (map snd tags)))"
proof -
  from assms show ?thesis
  proof
    assume "py_in k (lower arn)"
    then show ?thesis by (simp add: lower_append py_in_append_left)
  next
    assume "\<exists>v \<in> set (map snd tags). py_in k (lower v)"
    then obtain v where v: "v \<in> set (map snd tags)" "py_in k (lower v)" by blast
    then have "lower v \<in> set (map lower (map snd tags))" by auto
    then have "py_in k (join (lower '' '') (map lower (map snd tags)))"
      using v(2) py_in_join by blast
    then show ?thesis
      by (simp only: lower_append lower_join py_in_append_right)
  qed
qed

text \<open>
  Claim C8. The environment analyzer lower-cases the first resource's identifier joined
  with all of its tag values and tests the text against three ordered keyword sets, the
  test-like one first, then the production-like one, then the development-like one; the
  first set with a keyword in the text gives the tier, and the tier is \<^verbatim>\<open>unknown\<close> when
  no set matches or the finding has no resources. The analyzer is a total function: it
  has a result on every finding. The risk level is read from the fixed table
  production to HIGH, staging to MEDIUM, test and development to LOW, unknown to MEDIUM.
\<close>

theorem environment_analyzer_tiers:
  "(case get_Resources f of
      [] \<Rightarrow> analyze_environment_context f =
              \<lparr>environment = ''unknown'', risk_level = ''MEDIUM'',
               is_production = False, requires_immediate_action = False\<rparr>
    | r # rs \<Rightarrow>
        environment (analyze_environment_context f) =
          (let t = lower (get_Id r @ '' '' @ join '' '' (map snd (get_Tags r)))
           in if \<exists>k \<in> set [''test'', ''dev'', ''staging'', ''qa'', ''sandbox'', ''demo'']. py_in k t
              then ''test''
              else if \<exists>k \<in> set [''prod'', ''production'', ''live'', ''main'']. py_in k t
              then ''production''
              else if \<exists>k \<in> set [''dev'', ''development'', ''feature'', ''branch'']. py_in k t
              then ''development''
              else ''unknown''))
   \<and> (Resources f = None \<or> Resources f = Some [] \<longrightarrow>
        environment (analyze_environment_context f) = ''unknown'')
   \<and> risk_level (analyze_environment_context f) =
       assess_environment_risk (environment (analyze_environment_context f))
   \<and> assess_environment_risk ''production'' = ''HIGH''
   \<and> assess_environment_risk ''staging'' = ''MEDIUM''
   \<and> assess_environment_risk ''test'' = ''LOW''
   \<and> assess_environment_risk ''development'' = ''LOW''
   \<and> assess_environment_risk ''unknown'' = ''MEDIUM''"
proof -
  have c1: "(case get_Resources f of
      [] \<Rightarrow> analyze_environment_context f =
              \<lparr>environment = ''unknown'', risk_level = ''MEDIUM'',
               is_production = False, requires_immediate_action = False\<rparr>
    | r # rs \<Rightarrow>
        environment (analyze_environment_context f) =
          (let t = lower (get_Id r @ '' '' @ join '' '' (map snd (get_Tags r)))
           in if \<exists>k \<in> set [''test'', ''dev'', ''staging'', ''qa'', ''sandbox'', ''demo'']. py_in k t
              then ''test''
              else if \<exists>k \<in> set [''prod'', ''production'', ''live'', ''main'']. py_in k t
              then ''production''
              else if \<exists>k \<in> set [''dev'', ''development'', ''feature'', ''branch'']. py_in k t
              then ''development''
              else ''unknown''))"
    by (simp add: analyze_environment_context_def detect_environment_def Let_def
          first_matching_env_patterns split: list.split)
  have c2: "Resources f = None \<or> Resources f = Some [] \<longrightarrow>
        environment (analyze_environment_context f) = ''unknown''"
    by (auto simp: analyze_environment_context_def get_Resources_def get_Id_def get_Tags_def
          detect_environment_def lower_def lower_char_def first_matching_env_patterns Let_def)
  have c3: "risk_level (analyze_environment_context f) =
       assess_environment_risk (environment (analyze_environment_context f))"
    by (simp add: analyze_environment_context_def Let_def assess_environment_risk_def
          split: list.split)
  have c4: "assess_environment_risk ''production'' = ''HIGH''"
    "assess_environment_risk ''staging'' = ''MEDIUM''"
    "assess_environment_risk ''test'' = ''LOW''"
    "assess_environment_risk ''development'' = ''LOW''"
    "assess_environment_risk ''unknown'' = ''MEDIUM''"
    by (simp_all add: assess_environment_risk_def)
  from c1 c2 c3 c4 show ?thesis by blast
qed

theorem environment_analyzer_tiers_witness:
  "environment (analyze_environment_context finding_staging) = ''test''
   \<and> risk_level (analyze_environment_context finding_staging) = ''LOW''
   \<and> environment (analyze_environment_context (finding_staging\<lparr>Resources := Some []\<rparr>)) = ''unknown''"
proof -
  have r: "get_Resources finding_staging = [\<lparr>resource_Id = Some ''arn:aws:s3:::Logs'',
       Tags = Some [(''Environment'', ''Staging'')]\<rparr>]"
    by (simp add: finding_staging_def get_Resources_def)
  have t: "lower ''arn:aws:s3:::Logs Staging'' = ''arn:aws:s3:::logs staging''"
    by (simp add: lower_def lower_char_def)
  have e: "environment (analyze_environment_context finding_staging) = ''test''"
    using environment_analyzer_tiers [of finding_staging]
    by (simp add: r get_Id_def get_Tags_def t Let_def)
  have k: "risk_level (analyze_environment_context finding_staging) = ''LOW''"
    using environment_analyzer_tiers [of finding_staging] e by simp
  have u: "environment (analyze_environment_context (finding_staging\<lparr>Resources := Some []\<rparr>)) = ''unknown''"
    using environment_analyzer_tiers [of "finding_staging\<lparr>Resources := Some []\<rparr>"] by simp
  from e k u show ?thesis by simp
qed

text \<open>
  Claim C10. \<^verbatim>\<open>detect_environment\<close> never returns \<^verbatim>\<open>staging\<close>: a text in which
  \<^verbatim>\<open>staging\<close>, \<^verbatim>\<open>dev\<close> or \<^verbatim>\<open>development\<close> occurs, in the resource identifier or in
  a tag value, is classified as \<^verbatim>\<open>test\<close>, because these keywords match the test-like
  set, which is checked first. So no finding reaches the staging row of the risk table:
  a risk level MEDIUM always comes from the tier \<^verbatim>\<open>unknown\<close>.
\<close>

theorem staging_tier_unreachable:
  "detect_environment arn tags \<noteq> ''staging''
   \<and> (k \<in> {''staging'', ''dev'', ''development''}
        \<and> (py_in k (lower arn) \<or> (\<exists>v \<in> set (map snd tags). py_in k (lower v)))
       \<longrightarrow> detect_environment arn tags = ''test'')
   \<and> environment (analyze_environment_context f) \<noteq> ''staging''
   \<and> (risk_level (analyze_environment_context f) = ''MEDIUM''
       \<longrightarrow> environment (analyze_environment_context f) = ''unknown'')"
proof -
  have range: "detect_environment a t \<in> {''test'', ''production'', ''development'', ''unknown''}"
    for a t by (rule detect_environment_range)
  have c1: "detect_environment arn tags \<noteq> ''staging''"
    using range [of arn tags] by auto
  have c2: "detect_environment arn tags = ''test''"
    if k: "k \<in> {''staging'', ''dev'', ''development''}"
      and occ: "py_in k (lower arn) \<or> (\<exists>v \<in> set (map snd tags). py_in k (lower v))"
  proof -
    let ?t = "lower (arn @ '' '' @ join '' '' (map snd tags))"
    have "py_in k ?t" using occ by (rule text_contains)
    then have "py_in ''staging'' ?t \<or> py_in ''dev'' ?t"
      using k py_in_development by auto
    then show ?thesis
      unfolding detect_environment_def Let_def first_matching_env_patterns by auto
  qed
  have env_range: "environment (analyze_environment_context f)
      \<in> {''test'', ''production'', ''development'', ''unknown''}"
    using range by (simp add: analyze_environment_context_def Let_def split: list.split)
  have c3: "environment (analyze_environment_context f) \<noteq> ''staging''"
    using env_range by auto
  have risk: "risk_level (analyze_environment_context f) =
       assess_environment_risk (environment (analyze_environment_context f))"
    by (simp add: analyze_environment_context_def Let_def assess_environment_risk_def
          split: list.split)
  have c4: "risk_level (analyze_environment_context f) = ''MEDIUM''
       \<longrightarrow> environment (analyze_environment_context f) = ''unknown''"
    using env_range unfolding risk by (auto simp: assess_environment_risk_def)
  from c1 c2 c3 c4 show ?thesis by blast
qed

theorem staging_tier_unreachable_witness:
  "detect_environment ''arn:aws:s3:::Logs'' [(''Environment'', ''Staging'')] = ''test''
   \<and> risk_level (analyze_environment_context (finding_staging\<lparr>Resources := Some []\<rparr>)) = ''MEDIUM''
   \<and> environment (analyze_environment_context (finding_staging\<lparr>Resources := Some []\<rparr>)) = ''unknown''"
proof -
  have "py_in ''staging'' (lower ''Staging'')"
    by (simp add: lower_def lower_char_def)
  then have a: "detect_environment ''arn:aws:s3:::Logs'' [(''Environment'', ''Staging'')] = ''test''"
    using staging_tier_unreachable
      [of "''arn:aws:s3:::Logs''" "[(''Environment'', ''Staging'')]" "''staging''"]
    by simp
  have m: "risk_level (analyze_environment_context (finding_staging\<lparr>Resources := Some []\<rparr>)) = ''MEDIUM''"
    by (simp add: analyze_environment_context_def get_Resources_def)
  then have "environment (analyze_environment_context (finding_staging\<lparr>Resources := Some []\<rparr>)) = ''unknown''"
    using staging_tier_unreachable [of _ _ _ "finding_staging\<lparr>Resources := Some []\<rparr>"] by blast
  with a m show ?thesis by blast
qed

subsection \<open>The combiner\<close>

lemma sum_confidence_scores: "sum_list (confidence_scores e m p b t) = score_total e m p b t"
  by (simp add: confidence_scores_def score_total_def split: option.split)

lemma length_confidence_scores: "length (confidence_scores e m p b t) = score_count e m p b t"
  by (simp add: confidence_scores_def score_count_def split: option.split)

lemma confidence_combine:
  "confidence (combine_analysis_results e m p b t) =
     (if score_count e m p b t = 0 then 0.5
      else score_total e m p b t / real (score_count e m p b t))"
proof -
  have "(confidence_scores e m p b t = []) = (score_count e m p b t = 0)"
    using length_confidence_scores [of e m p b t] by (metis length_0_conv)
  then show ?thesis
    by (simp add: combine_analysis_results_def Let_def sum_confidence_scores
          length_confidence_scores)
qed

lemma is_false_positive_combine:
  "is_false_positive (combine_analysis_results e m p b t) =
     (confidence (combine_analysis_results e m p b t) > 0.7)"
  by (simp add: combine_analysis_results_def Let_def)

lemma recommended_action_combine:
  "recommended_action (combine_analysis_results e m p b t) =
     action_for_confidence (confidence (combine_analysis_results e m p b t))"
  by (simp add: combine_analysis_results_def Let_def)

lemma action_for_confidence_mono:
  "c1 \<le> c2 \<Longrightarrow> aggressiveness (action_for_confidence c1) \<le> aggressiveness (action_for_confidence c2)"
  by (simp add: action_for_confidence_def aggressiveness_def)

lemma analyze_finding_Inr:
  "analyze_finding py_str f opts = Inr r \<Longrightarrow>
     classification r = combine_analysis_results (environment_analysis r) (ml_classification r)
        (pattern_analysis r) (business_context r) (temporal_analysis r)
     \<and> environment_analysis r = Some (analyze_environment_context f)
     \<and> models_used r = get_models_used opts"
  by (auto simp: analyze_finding_def Let_def split: option.splits)

lemma analyze_finding_succeeds:
  "Id f = Some fid \<Longrightarrow> \<exists>r. analyze_finding py_str f opts = Inr r"
  by (simp add: analyze_finding_def Let_def)

subsection \<open>Example evaluations\<close>

lemma env_development: "analyze_environment_context finding_development =
   \<lparr>environment = ''test'', risk_level = ''LOW'', is_production = False,
    requires_immediate_action = False\<rparr>"
  by (simp add: analyze_environment_context_def finding_development_def get_Resources_def
        get_Id_def get_Tags_def detect_environment_def lower_def lower_char_def
        first_matching_env_patterns assess_environment_risk_def)

lemma env_production: "analyze_environment_context finding_production =
   \<lparr>environment = ''test'', risk_level = ''LOW'', is_production = False,
    requires_immediate_action = False\<rparr>"
  by (simp add: analyze_environment_context_def finding_production_def get_Resources_def
        get_Id_def get_Tags_def detect_environment_def lower_def lower_char_def
        first_matching_env_patterns assess_environment_risk_def)

lemma bus_development: "analyze_business_context finding_development =
   \<lparr>is_critical_resource = False, has_business_exception = False,
    business_impact = ''LOW'', requires_business_review = False\<rparr>"
  by (simp add: analyze_business_context_def finding_development_def get_Resources_def
        get_Id_def get_Tags_def is_critical_resource_check_def critical_resources_def
        matches_pattern_def remove_char_def has_business_exception_check_def
        generate_finding_key_def business_exceptions_def assess_business_impact_def
        get_Severity_Label_def Let_def)

lemma bus_production: "analyze_business_context finding_production =
   \<lparr>is_critical_resource = False, has_business_exception = False,
    business_impact = ''MEDIUM'', requires_business_review = False\<rparr>"
  by (simp add: analyze_business_context_def finding_production_def get_Resources_def
        get_Id_def get_Tags_def is_critical_resource_check_def critical_resources_def
        matches_pattern_def remove_char_def has_business_exception_check_def
        generate_finding_key_def business_exceptions_def assess_business_impact_def
        get_Severity_Label_def Let_def)

lemma severity_development: "get_Severity_Label finding_development = ''MEDIUM''"
  by (simp add: get_Severity_Label_def finding_development_def)

lemma severity_production: "get_Severity_Label finding_production = ''HIGH''"
  by (simp add: get_Severity_Label_def finding_production_def)

lemma ml_development:
  "classify_finding py_str finding_development =
     Some \<lparr>is_false_positive = False, confidence = 0.62,
           reasoning = ''Finding is in non-production environment''\<rparr>"
  by (simp add: classify_finding_def extract_features_def extract_environment_score_def
        env_development extract_historical_pattern_score_def
        extract_business_exception_score_def bus_development
        extract_temporal_pattern_score_def extract_severity_mismatch_score_def
        severity_development
        simple_classification_def weights_def generate_reasoning_def Let_def)

lemma ml_production:
  "classify_finding py_str finding_production =
     Some \<lparr>is_false_positive = False, confidence = 0.62,
           reasoning = ''Finding is in non-production environment''\<rparr>"
  by (simp add: classify_finding_def extract_features_def extract_environment_score_def
        env_production extract_historical_pattern_score_def
        extract_business_exception_score_def bus_production
        extract_temporal_pattern_score_def extract_severity_mismatch_score_def
        severity_production
        simple_classification_def weights_def generate_reasoning_def Let_def)

lemma pattern_stub:
  "analyze_historical_patterns f =
     \<lparr>similar_findings_count = 0, false_positive_rate = 0.5, pattern_confidence = 0.5,
      pattern_reasoning = ''No similar historical findings found''\<rparr>"
  by (simp add: analyze_historical_patterns_def find_similar_findings_def
        analyze_similar_findings_def analyze_outcomes_def calculate_pattern_probability_def
        get_false_positive_rate_def get_total_findings_def generate_pattern_reasoning_def)

lemma temporal_stub:
  "analyze_temporal_context f =
     \<lparr>is_temporary = False, recurrence_pattern = ''NONE'', in_maintenance_window = False,
      temporal_risk_level = ''HIGH''\<rparr>"
  by (simp add: analyze_temporal_context_def is_temporary_finding_def
        analyze_recurrence_pattern_def is_in_maintenance_window_def calculate_temporal_risk_def)

lemma classification_development_enabled:
  "analyze_finding py_str finding_development all_enabled = Inr r \<Longrightarrow>
     classification r =
       \<lparr>is_false_positive = False, confidence = 0.604,
        reasoning = ''Finding is in non-production environment'',
        recommended_action = ''REVIEW''\<rparr>"
  by (auto simp: analyze_finding_def Let_def all_enabled_def get_option_def
        env_development ml_development pattern_stub bus_development temporal_stub
        combine_analysis_results_def confidence_scores_def reasoning_parts_def
        calculate_environment_score_def calculate_business_score_def
        calculate_temporal_score_def action_for_confidence_def
        split: option.splits)

lemma classification_production_enabled:
  "analyze_finding py_str finding_production all_enabled = Inr r \<Longrightarrow>
     classification r =
       \<lparr>is_false_positive = False, confidence = 0.604,
        reasoning = ''Finding is in non-production environment'',
        recommended_action = ''REVIEW''\<rparr>"
  by (auto simp: analyze_finding_def Let_def all_enabled_def get_option_def
        env_production ml_production pattern_stub bus_production temporal_stub
        combine_analysis_results_def confidence_scores_def reasoning_parts_def
        calculate_environment_score_def calculate_business_score_def
        calculate_temporal_score_def action_for_confidence_def
        split: option.splits)

lemma classification_development_disabled:
  "analyze_finding py_str finding_development all_disabled = Inr r \<Longrightarrow>
     classification r =
       \<lparr>is_false_positive = True, confidence = 0.9,
        reasoning = ''Finding is in non-production environment'',
        recommended_action = ''DOWNGRADE''\<rparr>"
  by (auto simp: analyze_finding_def Let_def all_disabled_def get_option_def
        env_development combine_analysis_results_def confidence_scores_def reasoning_parts_def
        calculate_environment_score_def action_for_confidence_def
        split: option.splits)

subsection \<open>Confidence and recommended action\<close>

text \<open>
  Claim C1. The confidence that the combiner returns is the arithmetic mean of the
  scores of exactly the analyses that are present: their sum divided by their number,
  not by a fixed divisor (and 0.5 when none is present, which no request reaches, since
  at least the environment analysis is present in every response). The finding is a
  false positive if and only if the confidence is above 0.7. The action is
  \<^verbatim>\<open>SUPPRESS\<close> above 0.9, \<^verbatim>\<open>DOWNGRADE\<close> above 0.7 and up to 0.9, and \<^verbatim>\<open>REVIEW\<close>
  otherwise, so 0.95 gives \<^verbatim>\<open>SUPPRESS\<close>, 0.8 gives \<^verbatim>\<open>DOWNGRADE\<close> and 0.5 gives
  \<^verbatim>\<open>REVIEW\<close>, and a higher confidence never gives a less aggressive action.
\<close>

theorem combiner_mean_and_thresholds:
  "confidence (combine_analysis_results e m p b t) =
     (if score_count e m p b t = 0 then 0.5
      else score_total e m p b t / real (score_count e m p b t))
   \<and> is_false_positive (combine_analysis_results e m p b t) =
       (confidence (combine_analysis_results e m p b t) > 0.7)
   \<and> recommended_action (combine_analysis_results e m p b t) =
       (if confidence (combine_analysis_results e m p b t) > 0.9 then ''SUPPRESS''
        else if 0.7 < confidence (combine_analysis_results e m p b t)
                \<and> confidence (combine_analysis_results e m p b t) \<le> 0.9 then ''DOWNGRADE''
        else ''REVIEW'')
   \<and> recommended_action (combine_analysis_results e m p b t) =
       action_for_confidence (confidence (combine_analysis_results e m p b t))
   \<and> action_for_confidence 0.95 = ''SUPPRESS''
   \<and> action_for_confidence 0.8 = ''DOWNGRADE''
   \<and> action_for_confidence 0.5 = ''REVIEW''
   \<and> (c1 \<le> c2 \<longrightarrow>
        aggressiveness (action_for_confidence c1) \<le> aggressiveness (action_for_confidence c2))
   \<and> (analyze_finding py_str f opts = Inr r \<longrightarrow>
        score_count (environment_analysis r) (ml_classification r) (pattern_analysis r)
          (business_context r) (temporal_analysis r) > 0
        \<and> confidence (classification r) =
            score_total (environment_analysis r) (ml_classification r) (pattern_analysis r)
              (business_context r) (temporal_analysis r)
            / real (score_count (environment_analysis r) (ml_classification r)
                (pattern_analysis r) (business_context r) (temporal_analysis r))
        \<and> is_false_positive (classification r) = (confidence (classification r) > 0.7)
        \<and> recommended_action (classification r) =
            action_for_confidence (confidence (classification r)))"
proof -
  let ?c = "combine_analysis_results e m p b t"
  have a: "recommended_action ?c =
       (if confidence ?c > 0.9 then ''SUPPRESS''
        else if 0.7 < confidence ?c \<and> confidence ?c \<le> 0.9 then ''DOWNGRADE''
        else ''REVIEW'')"
    unfolding recommended_action_combine by (simp add: action_for_confidence_def)
  have v: "action_for_confidence 0.95 = ''SUPPRESS''" "action_for_confidence 0.8 = ''DOWNGRADE''"
    "action_for_confidence 0.5 = ''REVIEW''"
    by (simp_all add: action_for_confidence_def)
  have req: "score_count (environment_analysis r) (ml_classification r) (pattern_analysis r)
          (business_context r) (temporal_analysis r) > 0
        \<and> confidence (classification r) =
            score_total (environment_analysis r) (ml_classification r) (pattern_analysis r)
              (business_context r) (temporal_analysis r)
            / real (score_count (environment_analysis r) (ml_classification r)
                (pattern_analysis r) (business_context r) (temporal_analysis r))
        \<and> is_false_positive (classification r) = (confidence (classification r) > 0.7)
        \<and> recommended_action (classification r) =
            action_for_confidence (confidence (classification r))"
    if "analyze_finding py_str f opts = Inr r"
  proof -
    note h = analyze_finding_Inr [OF that]
    have pos: "score_count (environment_analysis r) (ml_classification r) (pattern_analysis r)
          (business_context r) (temporal_analysis r) > 0"
      using h by (simp add: score_count_def)
    show ?thesis
      using pos h confidence_combine is_false_positive_combine recommended_action_combine
      by simp
  qed
  show ?thesis
    using confidence_combine [of e m p b t] is_false_positive_combine [of e m p b t] a
      recommended_action_combine [of e m p b t] v action_for_confidence_mono [of c1 c2] req
    by blast
qed

theorem combiner_mean_and_thresholds_witness:
  "aggressiveness (action_for_confidence 0.5) \<le> aggressiveness (action_for_confidence 0.95)
   \<and> (\<exists>r. analyze_finding (\<lambda>f. []) finding_development all_disabled = Inr r
          \<and> confidence (classification r) = 0.9
          \<and> is_false_positive (classification r)
          \<and> recommended_action (classification r) = ''DOWNGRADE'')"
proof -
  have i: "Id finding_development =
      Some ''arn:aws:securityhub:us-west-2:123456789012:finding/test-1''"
    by (simp add: finding_development_def)
  obtain r where r: "analyze_finding (\<lambda>f. []) finding_development all_disabled = Inr r"
    using analyze_finding_succeeds [OF i] by blast
  have n: "environment_analysis r = Some (analyze_environment_context finding_development)"
    "ml_classification r = None" "pattern_analysis r = None" "business_context r = None"
    "temporal_analysis r = None"
    using r by (auto simp: analyze_finding_def Let_def all_disabled_def get_option_def
        split: option.splits)
  note t = combiner_mean_and_thresholds
      [of None None None None None "0.5" "0.95" "\<lambda>f. []" finding_development all_disabled r]
  have le: "(0.5::real) \<le> 0.95" by simp
  have a: "aggressiveness (action_for_confidence 0.5) \<le> aggressiveness (action_for_confidence 0.95)"
    using t le by blast
  have c: "confidence (classification r) = 0.9"
    using t r by (simp add: n score_total_def score_count_def env_development
        calculate_environment_score_def)
  have "is_false_positive (classification r)"
    "recommended_action (classification r) = ''DOWNGRADE''"
    using t r c by (simp_all add: action_for_confidence_def)
  with a c r show ?thesis by blast
qed

subsection \<open>Scores in the unit interval\<close>

lemma calculate_environment_score_bounds:
  "0 \<le> calculate_environment_score e \<and> calculate_environment_score e \<le> 1"
  by (simp add: calculate_environment_score_def)

lemma calculate_business_score_bounds:
  "0 \<le> calculate_business_score b \<and> calculate_business_score b \<le> 1"
  by (simp add: calculate_business_score_def)

lemma calculate_temporal_score_bounds:
  "0 \<le> calculate_temporal_score t \<and> calculate_temporal_score t \<le> 1"
  by (simp add: calculate_temporal_score_def)

lemma simple_classification_bounds:
  "0 \<le> simple_classification fs \<and> simple_classification fs \<le> 1"
  by (simp add: simple_classification_def Let_def)

lemma length_filter_count_list:
  "length (filter (\<lambda>f. g f = s) xs) = count_list (map g xs) s"
  by (induction xs) auto

lemma analyze_outcomes_rate:
  "get_false_positive_rate (analyze_outcomes sf) =
     (if sf = [] then 0.5
      else real (count_list (map WorkflowState sf) (Some ''SUPPRESSED'')) / real (length sf))"
  by (simp add: analyze_outcomes_def get_false_positive_rate_def Let_def length_filter_count_list)

lemma analyze_outcomes_total:
  "get_total_findings (analyze_outcomes sf) = length sf"
  by (simp add: analyze_outcomes_def get_total_findings_def Let_def)

lemma count_list_le_length: "count_list xs x \<le> length xs"
  by (induction xs) auto

lemma rate_bounds:
  "0 \<le> get_false_positive_rate (analyze_outcomes sf) \<and>
   get_false_positive_rate (analyze_outcomes sf) \<le> 1"
proof (cases "sf = []")
  case True
  then show ?thesis by (simp add: analyze_outcomes_rate)
next
  case False
  then have "0 < length sf" by simp
  moreover have "count_list (map WorkflowState sf) (Some ''SUPPRESSED'') \<le> length sf"
    using count_list_le_length [of "map WorkflowState sf"] by simp
  ultimately show ?thesis using False by (simp add: analyze_outcomes_rate)
qed

lemma pattern_probability_bounds:
  "0 \<le> calculate_pattern_probability (analyze_outcomes sf) \<and>
   calculate_pattern_probability (analyze_outcomes sf) \<le> 1"
proof -
  let ?r = "get_false_positive_rate (analyze_outcomes sf)"
  have r: "0 \<le> ?r" "?r \<le> 1" using rate_bounds [of sf] by auto
  then have "0 \<le> ?r * 0.8" "?r * 0.8 \<le> 1" by auto
  with r show ?thesis by (simp add: calculate_pattern_probability_def Let_def)
qed

lemma pattern_confidence_bounds:
  "0 \<le> pattern_confidence (analyze_similar_findings sf) \<and>
   pattern_confidence (analyze_similar_findings sf) \<le> 1"
  using pattern_probability_bounds [of sf] by (simp add: analyze_similar_findings_def Let_def)

lemma mean_bounds:
  assumes "\<forall>s \<in> set xs. 0 \<le> s \<and> s \<le> (1::real)" and "xs \<noteq> []"
  shows "0 \<le> sum_list xs / real (length xs) \<and> sum_list xs / real (length xs) \<le> 1"
proof -
  have "0 \<le> sum_list xs \<and> sum_list xs \<le> real (length xs)"
    using assms(1) by (induction xs) auto
  moreover have "0 < real (length xs)" using assms(2) by simp
  ultimately show ?thesis by simp
qed

lemma length_extract_features: "length (extract_features py_str f) = 5"
  by (simp add: extract_features_def)

lemma classify_finding_Some:
  "\<exists>c. classify_finding py_str f = Some c
       \<and> confidence c = simple_classification (extract_features py_str f)
       \<and> is_false_positive c = (confidence c > 0.7)"
  by (simp add: classify_finding_def generate_reasoning_def Let_def length_extract_features)

lemma extract_features_bounds:
  "\<forall>s \<in> set (extract_features py_str f). 0 \<le> s \<and> s \<le> 1"
  by (simp add: extract_features_def extract_environment_score_def Let_def
        extract_historical_pattern_score_def extract_business_exception_score_def
        extract_temporal_pattern_score_def extract_severity_mismatch_score_def)

lemma confidence_scores_bounds:
  assumes "\<And>c. m = Some c \<Longrightarrow> 0 \<le> confidence c \<and> confidence c \<le> 1"
    and "\<And>x. p = Some x \<Longrightarrow> 0 \<le> pattern_confidence x \<and> pattern_confidence x \<le> 1"
  shows "\<forall>s \<in> set (confidence_scores e m p b t). 0 \<le> s \<and> s \<le> 1"
  using assms calculate_environment_score_bounds calculate_business_score_bounds
    calculate_temporal_score_bounds
  by (auto simp: confidence_scores_def split: option.splits)

lemma analyze_finding_fields:
  assumes "analyze_finding py_str f opts = Inr r"
  shows "(\<forall>c. ml_classification r = Some c \<longrightarrow>
            confidence c = simple_classification (extract_features py_str f))"
    and "(\<forall>x. pattern_analysis r = Some x \<longrightarrow> x = analyze_similar_findings [])"
proof -
  obtain c where c: "classify_finding py_str f = Some c"
    "confidence c = simple_classification (extract_features py_str f)"
    using classify_finding_Some by blast
  show "(\<forall>c. ml_classification r = Some c \<longrightarrow>
            confidence c = simple_classification (extract_features py_str f))"
    using assms c by (auto simp: analyze_finding_def Let_def split: option.splits if_splits)
  show "(\<forall>x. pattern_analysis r = Some x \<longrightarrow> x = analyze_similar_findings [])"
    using assms
    by (auto simp: analyze_finding_def Let_def analyze_historical_patterns_def
          find_similar_findings_def split: option.splits if_splits)
qed

text \<open>
  Claim C2. Every score lies between 0 and 1: each of the five features, the environment
  score of every context, the classifier's probability on every feature vector, the
  pattern confidence on every history, the business score and the temporal score; and
  for every finding and every choice of options, each score that the combiner averages
  and the final confidence of the response.
\<close>

theorem scores_in_unit_interval:
  "(\<forall>s \<in> set (extract_features py_str f). 0 \<le> s \<and> s \<le> 1)
   \<and> 0 \<le> calculate_environment_score e \<and> calculate_environment_score e \<le> 1
   \<and> 0 \<le> simple_classification fs \<and> simple_classification fs \<le> 1
   \<and> 0 \<le> pattern_confidence (analyze_similar_findings sf)
   \<and> pattern_confidence (analyze_similar_findings sf) \<le> 1
   \<and> 0 \<le> calculate_business_score b \<and> calculate_business_score b \<le> 1
   \<and> 0 \<le> calculate_temporal_score t \<and> calculate_temporal_score t \<le> 1
   \<and> (analyze_finding py_str f opts = Inr r \<longrightarrow>
        (\<forall>s \<in> set (confidence_scores (environment_analysis r) (ml_classification r)
                      (pattern_analysis r) (business_context r) (temporal_analysis r)).
            0 \<le> s \<and> s \<le> 1)
        \<and> 0 \<le> confidence (classification r) \<and> confidence (classification r) \<le> 1)"
proof -
  have main: "(\<forall>s \<in> set (confidence_scores (environment_analysis r) (ml_classification r)
                      (pattern_analysis r) (business_context r) (temporal_analysis r)).
            0 \<le> s \<and> s \<le> 1)
        \<and> 0 \<le> confidence (classification r) \<and> confidence (classification r) \<le> 1"
    if h: "analyze_finding py_str f opts = Inr r"
  proof -
    let ?xs = "confidence_scores (environment_analysis r) (ml_classification r)
                      (pattern_analysis r) (business_context r) (temporal_analysis r)"
    have all: "\<forall>s \<in> set ?xs. 0 \<le> s \<and> s \<le> 1"
    proof (rule confidence_scores_bounds)
      fix c assume "ml_classification r = Some c"
      then show "0 \<le> confidence c \<and> confidence c \<le> 1"
        using analyze_finding_fields(1) [OF h] simple_classification_bounds by simp
    next
      fix x assume "pattern_analysis r = Some x"
      then show "0 \<le> pattern_confidence x \<and> pattern_confidence x \<le> 1"
        using analyze_finding_fields(2) [OF h] pattern_confidence_bounds by simp
    qed
    have ne: "?xs \<noteq> []"
      using analyze_finding_Inr [OF h] by (simp add: confidence_scores_def)
    have "confidence (classification r) = sum_list ?xs / real (length ?xs)"
      using analyze_finding_Inr [OF h] ne by (simp add: combine_analysis_results_def Let_def)
    then show ?thesis using all mean_bounds [OF all ne] by simp
  qed
  show ?thesis
    using extract_features_bounds [of py_str f] calculate_environment_score_bounds [of e]
      simple_classification_bounds [of fs] pattern_confidence_bounds [of sf]
      calculate_business_score_bounds [of b] calculate_temporal_score_bounds [of t] main
    by blast
qed

theorem scores_in_unit_interval_witness:
  "extract_features (\<lambda>f. []) finding_development = [0.9, 0.5, 0.5, 0.5, 0.5]
   \<and> (\<exists>r. analyze_finding (\<lambda>f. []) finding_development all_enabled = Inr r
          \<and> confidence (classification r) = 0.604
          \<and> 0 \<le> confidence (classification r) \<and> confidence (classification r) \<le> 1)"
proof -
  have i: "Id finding_development =
      Some ''arn:aws:securityhub:us-west-2:123456789012:finding/test-1''"
    by (simp add: finding_development_def)
  obtain r where r: "analyze_finding (\<lambda>f. []) finding_development all_enabled = Inr r"
    using analyze_finding_succeeds [OF i] by blast
  have b: "0 \<le> confidence (classification r) \<and> confidence (classification r) \<le> 1"
    using scores_in_unit_interval [of "\<lambda>f. []" finding_development _ _ _ _ _ all_enabled r] r
    by blast
  have e: "extract_features (\<lambda>f. []) finding_development = [0.9, 0.5, 0.5, 0.5, 0.5]"
    by (simp add: extract_features_def extract_environment_score_def
        env_development extract_historical_pattern_score_def
        extract_business_exception_score_def bus_development
        extract_temporal_pattern_score_def extract_severity_mismatch_score_def
        severity_development)
  have "confidence (classification r) = 0.604"
    using classification_development_enabled [OF r] by simp
  with b e r show ?thesis by blast
qed

subsection \<open>The default classifier\<close>

text \<open>
  Claim C6. On a vector of five features the default classifier returns the linear
  combination with the weights 0.30, 0.25, 0.20, 0.15 and 0.10 (environment, historical
  pattern, business exception, temporal, severity mismatch), clamped to the unit
  interval; when each feature lies between 0 and 1 the clamp changes nothing. The
  feature extractor always gives five features, and the classifier's result on a finding
  has this probability as its confidence and is a false positive if and only if the
  probability is above 0.7.
\<close>

theorem default_classifier_linear:
  "simple_classification [x1, x2, x3, x4, x5] =
     min (max (0.30 * x1 + 0.25 * x2 + 0.20 * x3 + 0.15 * x4 + 0.10 * x5) 0) 1
   \<and> ((\<forall>x \<in> set [x1, x2, x3, x4, x5]. 0 \<le> x \<and> x \<le> 1) \<longrightarrow>
        simple_classification [x1, x2, x3, x4, x5] =
          0.30 * x1 + 0.25 * x2 + 0.20 * x3 + 0.15 * x4 + 0.10 * x5)
   \<and> extract_features py_str f =
       [extract_environment_score f, extract_historical_pattern_score f,
        extract_business_exception_score f, extract_temporal_pattern_score f,
        extract_severity_mismatch_score py_str f]
   \<and> length (extract_features py_str f) = 5
   \<and> (\<exists>c. classify_finding py_str f = Some c
          \<and> confidence c = simple_classification (extract_features py_str f)
          \<and> (is_false_positive c \<longleftrightarrow> confidence c > 0.7))"
proof -
  have lin: "simple_classification [x1, x2, x3, x4, x5] =
     min (max (0.30 * x1 + 0.25 * x2 + 0.20 * x3 + 0.15 * x4 + 0.10 * x5) 0) 1"
    by (simp add: simple_classification_def weights_def Let_def algebra_simps)
  have unclamped: "simple_classification [x1, x2, x3, x4, x5] =
          0.30 * x1 + 0.25 * x2 + 0.20 * x3 + 0.15 * x4 + 0.10 * x5"
    if "\<forall>x \<in> set [x1, x2, x3, x4, x5]. 0 \<le> x \<and> x \<le> 1"
  proof -
    from that have "0 \<le> x1" "x1 \<le> 1" "0 \<le> x2" "x2 \<le> 1" "0 \<le> x3" "x3 \<le> 1"
      "0 \<le> x4" "x4 \<le> 1" "0 \<le> x5" "x5 \<le> 1" by auto
    then have "0 \<le> 0.30 * x1 + 0.25 * x2 + 0.20 * x3 + 0.15 * x4 + 0.10 * x5"
      "0.30 * x1 + 0.25 * x2 + 0.20 * x3 + 0.15 * x4 + 0.10 * x5 \<le> 1" by auto
    then show ?thesis unfolding lin by simp
  qed
  have order: "extract_features py_str f =
       [extract_environment_score f, extract_historical_pattern_score f,
        extract_business_exception_score f, extract_temporal_pattern_score f,
        extract_severity_mismatch_score py_str f]"
    by (simp add: extract_features_def)
  show ?thesis
    using lin unclamped order length_extract_features [of py_str f]
      classify_finding_Some [of py_str f]
    by blast
qed

theorem default_classifier_linear_witness:
  "simple_classification [0.9, 0.5, 0.5, 0.5, 0.5] = 0.62
   \<and> (\<exists>c. classify_finding (\<lambda>f. []) finding_development = Some c
          \<and> confidence c = 0.62 \<and> \<not> is_false_positive c)"
proof -
  note t = default_classifier_linear [of "0.9" "0.5" "0.5" "0.5" "0.5" "\<lambda>f. []" finding_development]
  have h: "\<forall>x \<in> set [0.9, 0.5, 0.5, 0.5, 0.5::real]. 0 \<le> x \<and> x \<le> 1" by simp
  have s: "simple_classification [0.9, 0.5, 0.5, 0.5, 0.5] = 0.62"
    using t h by simp
  have e: "extract_features (\<lambda>f. []) finding_development = [0.9, 0.5, 0.5, 0.5, 0.5]"
    by (simp add: extract_features_def extract_environment_score_def
        env_development extract_historical_pattern_score_def
        extract_business_exception_score_def bus_development
        extract_temporal_pattern_score_def extract_severity_mismatch_score_def
        severity_development)
  obtain c where c: "classify_finding (\<lambda>f. []) finding_development = Some c"
    "confidence c = simple_classification (extract_features (\<lambda>f. []) finding_development)"
    "is_false_positive c \<longleftrightarrow> confidence c > 0.7"
    using t by blast
  have "confidence c = 0.62" using c(2) e s by simp
  then show ?thesis using c s by auto
qed

subsection \<open>The pattern recognition engine\<close>

text \<open>
  Claim C7. For every list of similar findings the false-positive rate is the number of
  findings whose workflow state is \<^verbatim>\<open>SUPPRESSED\<close> divided by the length of the list, and
  0.5 for the empty list; the pattern confidence is the rate when there are more than 10
  findings, 0.8 times the rate when there are more than 5 and at most 10, and 0.5
  otherwise, whatever the rate.
\<close>

theorem pattern_rate_and_discount:
  "false_positive_rate (analyze_similar_findings sf) =
     (if sf = [] then 0.5
      else real (count_list (map WorkflowState sf) (Some ''SUPPRESSED'')) / real (length sf))
   \<and> similar_findings_count (analyze_similar_findings sf) = length sf
   \<and> pattern_confidence (analyze_similar_findings sf) =
       (if length sf > 10 then false_positive_rate (analyze_similar_findings sf)
        else if 5 < length sf \<and> length sf \<le> 10
        then 0.8 * false_positive_rate (analyze_similar_findings sf)
        else 0.5)
   \<and> get_false_positive_rate (analyze_outcomes sf) =
       false_positive_rate (analyze_similar_findings sf)
   \<and> calculate_pattern_probability (analyze_outcomes sf) =
       pattern_confidence (analyze_similar_findings sf)"
  by (simp add: analyze_similar_findings_def Let_def analyze_outcomes_rate
        calculate_pattern_probability_def analyze_outcomes_total)

theorem pattern_rate_and_discount_witness:
  "false_positive_rate (analyze_similar_findings history_six) = 0.5
   \<and> similar_findings_count (analyze_similar_findings history_six) = 6
   \<and> pattern_confidence (analyze_similar_findings history_six) = 0.4
   \<and> false_positive_rate (analyze_similar_findings []) = 0.5
   \<and> pattern_confidence (analyze_similar_findings []) = 0.5"
proof -
  have l: "length history_six = 6" "history_six \<noteq> []"
    "count_list (map WorkflowState history_six) (Some ''SUPPRESSED'') = 3"
    by (simp_all add: history_six_def)
  show ?thesis
    using pattern_rate_and_discount [of history_six] pattern_rate_and_discount [of "[]"]
    by (simp add: l)
qed

subsection \<open>The environment analyzer cannot be disabled\<close>

text \<open>
  Claim C9. Whatever the four options are, a request on a finding with an identifier
  succeeds, and every successful response carries the environment analysis of the
  finding, lists \<^verbatim>\<open>environment_analyzer\<close> among the models used, and has the
  environment score as the first of the scores that are averaged into the confidence.
\<close>

theorem environment_analyzer_always_used:
  "(Id f = Some fid \<longrightarrow> (\<exists>r. analyze_finding py_str f opts = Inr r))
   \<and> (analyze_finding py_str f opts = Inr r \<longrightarrow>
        environment_analysis r = Some (analyze_environment_context f)
        \<and> ''environment_analyzer'' \<in> set (models_used r)
        \<and> confidence_scores (environment_analysis r) (ml_classification r)
             (pattern_analysis r) (business_context r) (temporal_analysis r) =
            calculate_environment_score (analyze_environment_context f)
            # confidence_scores None (ml_classification r) (pattern_analysis r)
                (business_context r) (temporal_analysis r)
        \<and> confidence (classification r) =
            (calculate_environment_score (analyze_environment_context f)
             + sum_list (confidence_scores None (ml_classification r) (pattern_analysis r)
                 (business_context r) (temporal_analysis r)))
            / real (1 + length (confidence_scores None (ml_classification r)
                 (pattern_analysis r) (business_context r) (temporal_analysis r))))"
proof -
  have s: "\<exists>r. analyze_finding py_str f opts = Inr r" if "Id f = Some fid"
    using that by (rule analyze_finding_succeeds)
  have u: "environment_analysis r = Some (analyze_environment_context f)
        \<and> ''environment_analyzer'' \<in> set (models_used r)
        \<and> confidence_scores (environment_analysis r) (ml_classification r)
             (pattern_analysis r) (business_context r) (temporal_analysis r) =
            calculate_environment_score (analyze_environment_context f)
            # confidence_scores None (ml_classification r) (pattern_analysis r)
                (business_context r) (temporal_analysis r)
        \<and> confidence (classification r) =
            (calculate_environment_score (analyze_environment_context f)
             + sum_list (confidence_scores None (ml_classification r) (pattern_analysis r)
                 (business_context r) (temporal_analysis r)))
            / real (1 + length (confidence_scores None (ml_classification r)
                 (pattern_analysis r) (business_context r) (temporal_analysis r)))"
    if h: "analyze_finding py_str f opts = Inr r"
  proof -
    note k = analyze_finding_Inr [OF h]
    have l: "confidence_scores (Some e) m p b t =
        calculate_environment_score e # confidence_scores None m p b t" for e m p b t
      by (simp add: confidence_scores_def)
    show ?thesis
      using k by (simp add: l get_models_used_def combine_analysis_results_def Let_def)
  qed
  from s u show ?thesis by blast
qed

theorem environment_analyzer_always_used_witness:
  "\<exists>r. analyze_finding (\<lambda>f. []) finding_development all_disabled = Inr r
     \<and> environment_analysis r = Some (analyze_environment_context finding_development)
     \<and> ''environment_analyzer'' \<in> set (models_used r)
     \<and> confidence (classification r) = 0.9"
proof -
  have i: "Id finding_development =
      Some ''arn:aws:securityhub:us-west-2:123456789012:finding/test-1''"
    by (simp add: finding_development_def)
  obtain r where r: "analyze_finding (\<lambda>f. []) finding_development all_disabled = Inr r"
    using environment_analyzer_always_used
      [of finding_development "''arn:aws:securityhub:us-west-2:123456789012:finding/test-1''"
         "\<lambda>f. []" all_disabled] i
    by blast
  have n: "ml_classification r = None" "pattern_analysis r = None" "business_context r = None"
    "temporal_analysis r = None"
    using r by (auto simp: analyze_finding_def Let_def all_disabled_def get_option_def
        split: option.splits)
  have "environment_analysis r = Some (analyze_environment_context finding_development)
     \<and> ''environment_analyzer'' \<in> set (models_used r)
     \<and> confidence (classification r) = 0.9"
    using environment_analyzer_always_used
      [of finding_development "''arn:aws:securityhub:us-west-2:123456789012:finding/test-1''"
         "\<lambda>f. []" all_disabled r] r
    by (simp add: n confidence_scores_def env_development calculate_environment_score_def)
  with r show ?thesis by blast
qed

subsection \<open>All four options disabled\<close>

text \<open>
  Claim C3 says that a request with all four options disabled gets confidence 0.5 and
  the action \<^verbatim>\<open>REVIEW\<close>. On the development finding of the test suite the response has
  confidence 0.9 and the action \<^verbatim>\<open>DOWNGRADE\<close>: the environment analysis is still
  present, and its score 0.9 is the only one averaged. (The classifier is disabled, so
  the printing function is never applied.)
\<close>

theorem all_disabled_fallback_counterexample:
  "\<not> isl (analyze_finding (\<lambda>f. []) finding_development all_disabled)
   \<and> confidence (classification
        (projr (analyze_finding (\<lambda>f. []) finding_development all_disabled))) = 0.9
   \<and> confidence (classification
        (projr (analyze_finding (\<lambda>f. []) finding_development all_disabled))) \<noteq> 0.5
   \<and> recommended_action (classification
        (projr (analyze_finding (\<lambda>f. []) finding_development all_disabled))) = ''DOWNGRADE''
   \<and> recommended_action (classification
        (projr (analyze_finding (\<lambda>f. []) finding_development all_disabled))) \<noteq> ''REVIEW''"
proof -
  have "Id finding_development =
      Some ''arn:aws:securityhub:us-west-2:123456789012:finding/test-1''"
    by (simp add: finding_development_def)
  then obtain r where r: "analyze_finding (\<lambda>f. []) finding_development all_disabled = Inr r"
    using analyze_finding_succeeds by blast
  show ?thesis
    using r classification_development_disabled [OF r] by simp
qed

text \<open>
  Claim C3, amended. On every finding with an identifier a request with all four
  options disabled succeeds, and its confidence is the environment score alone: the
  action is \<^verbatim>\<open>DOWNGRADE\<close> for a test, development or staging tier and \<^verbatim>\<open>REVIEW\<close>
  otherwise; confidence 0.5 with \<^verbatim>\<open>REVIEW\<close> is the result for an unknown tier, and it
  is the fallback of the combiner when no analysis at all is present.
\<close>

theorem all_disabled_environment_only:
  assumes "Id f = Some fid"
    and "get_option (include_ml_classification opts) = False"
    and "get_option (include_pattern_analysis opts) = False"
    and "get_option (include_business_context opts) = False"
    and "get_option (include_temporal_analysis opts) = False"
  shows "\<exists>r. analyze_finding py_str f opts = Inr r
     \<and> confidence (classification r) =
         calculate_environment_score (analyze_environment_context f)
     \<and> recommended_action (classification r) =
         (if environment (analyze_environment_context f)
               \<in> {''test'', ''development'', ''staging''}
          then ''DOWNGRADE'' else ''REVIEW'')
     \<and> (environment (analyze_environment_context f) = ''unknown'' \<longrightarrow>
          confidence (classification r) = 0.5
          \<and> recommended_action (classification r) = ''REVIEW'')
     \<and> combine_analysis_results None None None None None =
         \<lparr>is_false_positive = False, confidence = 0.5,
          reasoning = ''No specific indicators'', recommended_action = ''REVIEW''\<rparr>"
  using assms
  by (simp add: analyze_finding_def Let_def combine_analysis_results_def confidence_scores_def
        reasoning_parts_def calculate_environment_score_def action_for_confidence_def)

theorem all_disabled_environment_only_witness:
  "\<exists>r. analyze_finding (\<lambda>f. []) finding_development all_disabled = Inr r
     \<and> confidence (classification r) = 0.9
     \<and> recommended_action (classification r) = ''DOWNGRADE''"
proof -
  have i: "Id finding_development =
      Some ''arn:aws:securityhub:us-west-2:123456789012:finding/test-1''"
    by (simp add: finding_development_def)
  have o: "get_option (include_ml_classification all_disabled) = False"
    "get_option (include_pattern_analysis all_disabled) = False"
    "get_option (include_business_context all_disabled) = False"
    "get_option (include_temporal_analysis all_disabled) = False"
    by (simp_all add: all_disabled_def get_option_def)
  obtain r where "analyze_finding (\<lambda>f. []) finding_development all_disabled = Inr r"
    and "confidence (classification r) =
         calculate_environment_score (analyze_environment_context finding_development)"
    and "recommended_action (classification r) =
         (if environment (analyze_environment_context finding_development)
               \<in> {''test'', ''development'', ''staging''}
          then ''DOWNGRADE'' else ''REVIEW'')"
    using all_disabled_environment_only [OF i o, of "\<lambda>f. []"] by blast
  then show ?thesis
    by (simp add: env_development calculate_environment_score_def)
qed

subsection \<open>Bounds with every analysis enabled and on the production tier\<close>

lemma analyze_finding_all_enabled:
  assumes "analyze_finding py_str f opts = Inr r"
    and "get_option (include_ml_classification opts)"
    and "get_option (include_pattern_analysis opts)"
    and "get_option (include_business_context opts)"
    and "get_option (include_temporal_analysis opts)"
  shows "confidence (classification r) =
     (calculate_environment_score (analyze_environment_context f)
      + simple_classification (extract_features py_str f)
      + 0.5
      + calculate_business_score (analyze_business_context f)
      + 0.5) / 5"
proof -
  obtain c where c: "classify_finding py_str f = Some c"
    "confidence c = simple_classification (extract_features py_str f)"
    using classify_finding_Some by blast
  show ?thesis
    using assms c
    by (auto simp: analyze_finding_def Let_def combine_analysis_results_def
          confidence_scores_def pattern_stub temporal_stub calculate_temporal_score_def
          split: option.splits)
qed

lemma simple_classification_five:
  "simple_classification [x1, x2, x3, x4, x5] =
     min (max (0.30 * x1 + 0.25 * x2 + 0.20 * x3 + 0.15 * x4 + 0.10 * x5) 0) 1"
  by (simp add: simple_classification_def weights_def Let_def algebra_simps)

lemma clamp_le: "x \<le> c \<Longrightarrow> 0 \<le> c \<Longrightarrow> min (max x 0) 1 \<le> (c::real)"
  by simp

lemma simple_classification_le:
  "simple_classification (extract_features py_str f) \<le> 0.71"
proof -
  have e: "extract_environment_score f \<le> 0.9"
    by (simp add: extract_environment_score_def Let_def)
  have b: "extract_business_exception_score f \<le> 0.8"
    by (simp add: extract_business_exception_score_def Let_def)
  have s: "extract_severity_mismatch_score py_str f \<le> 0.8"
    by (simp add: extract_severity_mismatch_score_def Let_def)
  have "0.30 * extract_environment_score f + 0.25 * 0.5
        + 0.20 * extract_business_exception_score f + 0.15 * 0.5
        + 0.10 * extract_severity_mismatch_score py_str f \<le> 0.71"
    using e b s by simp
  then show ?thesis
    unfolding extract_features_def simple_classification_five
      extract_historical_pattern_score_def extract_temporal_pattern_score_def
    by (rule clamp_le) simp
qed

lemma all_enabled_below_threshold:
  assumes "analyze_finding py_str f opts = Inr r"
    and "get_option (include_ml_classification opts)"
    and "get_option (include_pattern_analysis opts)"
    and "get_option (include_business_context opts)"
    and "get_option (include_temporal_analysis opts)"
  shows "confidence (classification r) \<le> 0.682 \<and> \<not> is_false_positive (classification r)"
proof -
  have e: "calculate_environment_score (analyze_environment_context f) \<le> 0.9"
    by (simp add: calculate_environment_score_def)
  have b: "calculate_business_score (analyze_business_context f) \<le> 0.8"
    by (simp add: calculate_business_score_def)
  have c: "confidence (classification r) \<le> 0.682"
    unfolding analyze_finding_all_enabled [OF assms]
    using e b simple_classification_le [of py_str f] by simp
  moreover have "is_false_positive (classification r) = (confidence (classification r) > 0.7)"
    using analyze_finding_Inr [OF assms(1)] is_false_positive_combine by simp
  ultimately show ?thesis by simp
qed

lemma simple_classification_production_le:
  assumes "environment (analyze_environment_context f) = ''production''"
  shows "simple_classification (extract_features py_str f) \<le> 0.47"
proof -
  have e: "extract_environment_score f = 0.1"
    using assms by (simp add: extract_environment_score_def Let_def)
  have b: "extract_business_exception_score f \<le> 0.8"
    by (simp add: extract_business_exception_score_def Let_def)
  have s: "extract_severity_mismatch_score py_str f \<le> 0.8"
    by (simp add: extract_severity_mismatch_score_def Let_def)
  have "0.30 * 0.1 + 0.25 * 0.5
        + 0.20 * extract_business_exception_score f + 0.15 * 0.5
        + 0.10 * extract_severity_mismatch_score py_str f \<le> 0.47"
    using b s by simp
  then show ?thesis
    unfolding extract_features_def simple_classification_five
      extract_historical_pattern_score_def extract_temporal_pattern_score_def e
    by (rule clamp_le) simp
qed

lemma production_tier_below_half:
  assumes "analyze_finding py_str f opts = Inr r"
    and "environment (analyze_environment_context f) = ''production''"
  shows "confidence (classification r) < 0.5 \<and> \<not> is_false_positive (classification r)"
proof -
  have e: "calculate_environment_score (analyze_environment_context f) = 0.1"
    using assms(2) by (simp add: calculate_environment_score_def)
  obtain c where c: "classify_finding py_str f = Some c"
    "confidence c = simple_classification (extract_features py_str f)"
    using classify_finding_Some by blast
  have m: "confidence c \<le> 0.47"
    using c(2) simple_classification_production_le [OF assms(2)] by simp
  have b: "calculate_business_score (analyze_business_context f) \<le> 0.8"
    by (simp add: calculate_business_score_def)
  have lt: "confidence (classification r) < 0.5"
    using assms(1) c(1) m b e
    by (auto simp: analyze_finding_def Let_def combine_analysis_results_def
          confidence_scores_def pattern_stub temporal_stub calculate_temporal_score_def
          split: option.splits if_splits)
  moreover have "is_false_positive (classification r) = (confidence (classification r) > 0.7)"
    using analyze_finding_Inr [OF assms(1)] is_false_positive_combine by simp
  ultimately show ?thesis by simp
qed

subsection \<open>The scenarios of the test suite\<close>

text \<open>
  Claim C4 says that a finding whose resource matches a test or development keyword is
  a false positive with confidence above 0.7. On the development finding of the test
  suite, with every analysis enabled, the tier is \<^verbatim>\<open>test\<close> and the reasoning names the
  non-production environment, but the confidence is 0.604, the mean of 0.9, 0.62, 0.5,
  0.5 and 0.5, and the finding is not a false positive.
\<close>

theorem development_finding_not_flagged:
  "\<not> isl (analyze_finding py_str finding_development all_enabled)
   \<and> environment_analysis (projr (analyze_finding py_str finding_development all_enabled)) =
       Some \<lparr>environment = ''test'', risk_level = ''LOW'', is_production = False,
             requires_immediate_action = False\<rparr>
   \<and> classification (projr (analyze_finding py_str finding_development all_enabled)) =
       \<lparr>is_false_positive = False, confidence = 0.604,
        reasoning = ''Finding is in non-production environment'',
        recommended_action = ''REVIEW''\<rparr>"
proof -
  have "Id finding_development =
      Some ''arn:aws:securityhub:us-west-2:123456789012:finding/test-1''"
    by (simp add: finding_development_def)
  then obtain r where r: "analyze_finding py_str finding_development all_enabled = Inr r"
    using analyze_finding_succeeds by blast
  have "environment_analysis r = Some (analyze_environment_context finding_development)"
    using analyze_finding_Inr [OF r] by simp
  then show ?thesis
    using r classification_development_enabled [OF r] by (simp add: env_development)
qed

text \<open>
  Claim C5 says that a finding tagged \<^verbatim>\<open>Environment=production\<close> with severity
  \<^verbatim>\<open>HIGH\<close> has confidence below 0.5. On the production finding of the test suite,
  whose second tag value is \<^verbatim>\<open>test-project\<close>, the test-like keyword set matches first:
  the tier is \<^verbatim>\<open>test\<close> and the confidence is 0.604.
\<close>

theorem production_finding_detected_as_test:
  "\<not> isl (analyze_finding py_str finding_production all_enabled)
   \<and> environment_analysis (projr (analyze_finding py_str finding_production all_enabled)) =
       Some \<lparr>environment = ''test'', risk_level = ''LOW'', is_production = False,
             requires_immediate_action = False\<rparr>
   \<and> classification (projr (analyze_finding py_str finding_production all_enabled)) =
       \<lparr>is_false_positive = False, confidence = 0.604,
        reasoning = ''Finding is in non-production environment'',
        recommended_action = ''REVIEW''\<rparr>
   \<and> \<not> confidence (classification
          (projr (analyze_finding py_str finding_production all_enabled))) < 0.5"
proof -
  have "Id finding_production =
      Some ''arn:aws:securityhub:us-west-2:123456789012:finding/test-2''"
    by (simp add: finding_production_def)
  then obtain r where r: "analyze_finding py_str finding_production all_enabled = Inr r"
    using analyze_finding_succeeds by blast
  have "environment_analysis r = Some (analyze_environment_context finding_production)"
    using analyze_finding_Inr [OF r] by simp
  then show ?thesis
    using r classification_production_enabled [OF r] by (simp add: env_production)
qed

end
